theory Spec2Isabelle
  imports Complex_Main
begin

section \<open>The event dispatcher and the transport (frontend/lib/websocket.ts)\<close>

text \<open>
  A handler is a JavaScript function called with the event's payload. It may change the
  world it closes over (React state, a log) and may throw. The model passes the world
  explicitly: a handler returns the world as it is when the call ends, together with the
  exception it threw, if any. The updates a handler made before it threw stay made.
  Handlers do not call back into the manager while an emit is running.
\<close>

datatype jsError = ReferenceError string | TypeError string | JsError string

text \<open>\<^verbatim>\<open>interface QueryErrorEvent\<close>: the payload of \<^verbatim>\<open>query:error\<close>.\<close>

record QueryErrorEvent =
  qe_message :: string
  qe_conversation_id :: int

type_synonym ('p, 'w) handler = "'p \<Rightarrow> 'w \<Rightarrow> 'w \<times> jsError option"

text \<open>One \<^verbatim>\<open>console.error\<close> call: the list of its arguments.\<close>

datatype console_arg = Str string | Thrown jsError | Logged QueryErrorEvent

type_synonym console_log = "console_arg list list"

text \<open>
  The body of \<^verbatim>\<open>emit\<close>: \<^verbatim>\<open>forEach\<close> over the handlers of one event, each call wrapped in
  \<^verbatim>\<open>try { handler(data) } catch (error) { console.error(`Error in event handler for ${event}:`, error) }\<close>.
\<close>

fun forEach_try ::
  "string \<Rightarrow> ('p, 'w) handler list \<Rightarrow> 'p \<Rightarrow> console_log \<times> 'w \<Rightarrow> console_log \<times> 'w"
where
  "forEach_try event [] data (con, w) = (con, w)"
| "forEach_try event (h # hs) data (con, w) =
     (case h data w of
        (w', None) \<Rightarrow> forEach_try event hs data (con, w')
      | (w', Some err) \<Rightarrow>
          forEach_try event hs data
            (con @ [[Str (''Error in event handler for '' @ event @ '':''), Thrown err]], w'))"

subsection \<open>Wire payloads\<close>

datatype conn_status = Connected | Disconnected | StatusError

record Citation =
  node_id :: string
  section_title :: string
  start_page :: int
  end_page :: int

text \<open>
  The payload of \<^verbatim>\<open>query:answer_complete\<close>. The cost is a JavaScript number that is only
  carried along, never computed with.
\<close>

record AnswerCompleteData =
  ac_cost :: real
  ac_tokens_used :: nat
  ac_cached :: bool
  ac_citations :: "Citation list"

record QueryRequest =
  question :: string
  document_id :: int
  conversation_id :: int
  use_cache :: "bool option"
  include_citations :: "bool option"

datatype payload =
    ConnectionStatusEvent conn_status string
  | QueryStartedEvent string int
  | QueryErrorData QueryErrorEvent
  | ChunkData string
  | NodeListData "string list"
  | AnswerCompleteEvent AnswerCompleteData
  | OtherData string

subsection \<open>WebSocketManager\<close>

text \<open>
  The socket.io socket as the manager sees it: its \<^verbatim>\<open>connected\<close> flag, the options
  \<^verbatim>\<open>connect\<close> passed to \<^verbatim>\<open>io(...)\<close>, and the frames the manager has sent on it.
\<close>

record Socket =
  connected :: bool
  reconnectionAttempts :: nat
  reconnectionDelay :: nat
  sent :: "(string \<times> QueryRequest) list"

text \<open>
  \<^verbatim>\<open>listeners: Map<string, Set<Function>>\<close>. A JavaScript \<^verbatim>\<open>Set\<close> iterates in insertion
  order and holds a function at most once, by identity; the model gives every function
  a number as its identity and keeps the set as a list without repeated numbers. An
  event with no entry has no handlers.
\<close>

record 'w WebSocketManager =
  socket :: "Socket option"
  listeners :: "string \<Rightarrow> (nat \<times> (payload, 'w) handler) list"
  reconnectAttempts :: nat
  maxReconnectAttempts :: nat
  reconnectDelay :: nat
  isConnecting :: bool
  console :: console_log

definition new_WebSocketManager :: "'w WebSocketManager" where
  "new_WebSocketManager =
     \<lparr> socket = None, listeners = (\<lambda>_. []), reconnectAttempts = 0,
       maxReconnectAttempts = 5, reconnectDelay = 1000, isConnecting = False,
       console = [] \<rparr>"

text \<open>\<^verbatim>\<open>this.socket?.connected\<close>, undefined (falsy) when there is no socket.\<close>

definition isConnected :: "'w WebSocketManager \<Rightarrow> bool" where
  "isConnected m = (case socket m of None \<Rightarrow> False | Some s \<Rightarrow> connected s)"

definition on :: "string \<Rightarrow> nat \<times> (payload, 'w) handler \<Rightarrow> 'w WebSocketManager \<Rightarrow> 'w WebSocketManager" where
  "on event handler m =
     (if fst handler \<in> set (map fst (listeners m event)) then m
      else m\<lparr>listeners := (listeners m)(event := listeners m event @ [handler])\<rparr>)"

definition off :: "string \<Rightarrow> nat \<Rightarrow> 'w WebSocketManager \<Rightarrow> 'w WebSocketManager" where
  "off event hid m =
     m\<lparr>listeners := (listeners m)(event := filter (\<lambda>h. fst h \<noteq> hid) (listeners m event))\<rparr>"

definition emit ::
  "string \<Rightarrow> payload \<Rightarrow> 'w WebSocketManager \<Rightarrow> 'w \<Rightarrow> 'w WebSocketManager \<times> 'w"
where
  "emit event data m w =
     (case forEach_try event (map snd (listeners m event)) data (console m, w) of
        (con, w') \<Rightarrow> (m\<lparr>console := con\<rparr>, w'))"





definition sendQuery :: "QueryRequest \<Rightarrow> 'w WebSocketManager \<Rightarrow> 'w \<Rightarrow> 'w WebSocketManager \<times> 'w" where
  "sendQuery queryRequest m w =
     (if \<not> isConnected m
      then emit ''query:error''
             (QueryErrorData \<lparr> qe_message = ''Not connected to server. Please try again.'',
                               qe_conversation_id = conversation_id queryRequest \<rparr>)
             (m\<lparr>console := console m @ [[Str ''WebSocket: Cannot send query - not connected'']]\<rparr>) w
      else (m\<lparr>socket := map_option (\<lambda>s. s\<lparr>sent := sent s @ [(''query'', queryRequest)]\<rparr>) (socket m)\<rparr>, w))"




text \<open>A listener that keeps every payload it is given, in order.\<close>

definition recorder :: "(payload, payload list) handler" where
  "recorder data seen = (seen @ [data], None)"

section \<open>The chat interface's stream handlers (unnamed/part_000, ChatInterface)\<close>

datatype role = User | Assistant | System

text \<open>
  \<^verbatim>\<open>interface Message\<close>. The \<^verbatim>\<open>id\<close> is the decimal string of a clock reading; the model
  keeps the number. Optional fields are options.
\<close>

record Message =
  msg_id :: nat
  role :: role
  content :: string
  timestamp :: nat
  isStreaming :: "bool option"
  documentContext :: "string option"
  cost :: "real option"
  tokens :: "nat option"
  cached :: "bool option"
  citations :: "Citation list option"

text \<open>A call of react-hot-toast, with the values its text is built from.\<close>

datatype toast =
    ToastSuccessCached
  | ToastSuccessCompleted nat real
  | ToastQueryFailed string

text \<open>
  The component's React state that the stream handlers touch. Every setter call in a
  handler is either a constant or an updater \<^verbatim>\<open>(prev) => ...\<close>, and React applies the
  queued updates of a state variable in the order of the calls: each field below holds
  the value with all queued updates applied.

  The handlers are closures made by the effect with dependencies
  \<^verbatim>\<open>[on, off, streamedAnswer]\<close>. A handler sees the \<^verbatim>\<open>streamedAnswer\<close> of the render whose
  effect registered it: \<^verbatim>\<open>closure_streamedAnswer\<close>. It changes only when the component
  renders again and the effect re-registers the handlers (\<^verbatim>\<open>render\<close> below).
\<close>

record ChatInterface =
  messages :: "Message list"
  isLoading :: bool
  currentQuestionId :: "string option"
  streamedThinking :: string
  streamedNodes :: "string list"
  streamedAnswer :: string
  isStreamingAnswer :: bool
  closure_streamedAnswer :: string
  toasts :: "toast list"
  chat_console :: console_log

definition handleThinkingStream :: "string \<Rightarrow> ChatInterface \<Rightarrow> ChatInterface" where
  "handleThinkingStream chunk c = c\<lparr>streamedThinking := streamedThinking c @ chunk\<rparr>"

definition handleNodes :: "string list \<Rightarrow> ChatInterface \<Rightarrow> ChatInterface" where
  "handleNodes node_list c = c\<lparr>streamedNodes := node_list\<rparr>"

definition handleAnswerStream :: "string \<Rightarrow> ChatInterface \<Rightarrow> ChatInterface" where
  "handleAnswerStream chunk c =
     c\<lparr>isStreamingAnswer := True, streamedAnswer := streamedAnswer c @ chunk\<rparr>"

text \<open>
  \<^verbatim>\<open>now\<close> is what \<^verbatim>\<open>Date.now()\<close> and \<^verbatim>\<open>new Date()\<close> read during the call. The message's
  content is the \<^verbatim>\<open>streamedAnswer\<close> of the closure.
\<close>

definition handleAnswerComplete :: "nat \<Rightarrow> AnswerCompleteData \<Rightarrow> ChatInterface \<Rightarrow> ChatInterface" where
  "handleAnswerComplete now data c =
     (let assistantMessage =
            \<lparr> msg_id = now + 1, role = Assistant, content = closure_streamedAnswer c,
              timestamp = now, isStreaming = None, documentContext = None,
              cost = Some (ac_cost data), tokens = Some (ac_tokens_used data),
              cached = Some (ac_cached data), citations = Some (ac_citations data) \<rparr>
      in c\<lparr> isStreamingAnswer := False,
            messages := messages c @ [assistantMessage],
            isLoading := False,
            currentQuestionId := None,
            streamedThinking := [],
            streamedNodes := [],
            streamedAnswer := [],
            toasts := toasts c @
              [if ac_cached data then ToastSuccessCached
               else ToastSuccessCompleted (ac_tokens_used data) (ac_cost data)] \<rparr>)"

text \<open>
  \<^verbatim>\<open>setThinkingProcess\<close> is declared nowhere in the module, so evaluating the call
  \<^verbatim>\<open>setThinkingProcess(null)\<close> throws a ReferenceError; \<^verbatim>\<open>toast.error\<close> stands after it.
\<close>

definition handleQueryError :: "nat \<Rightarrow> QueryErrorEvent \<Rightarrow> ChatInterface \<Rightarrow> ChatInterface \<times> jsError option" where
  "handleQueryError now data c =
     (let errorMessage =
            \<lparr> msg_id = now + 1, role = System, content = ''Error: '' @ qe_message data,
              timestamp = now, isStreaming = None, documentContext = None,
              cost = None, tokens = None, cached = None, citations = None \<rparr>
      in (c\<lparr> chat_console := chat_console c @ [[Str ''Query error:'', Logged data]],
             messages := messages c @ [errorMessage],
             isLoading := False,
             currentQuestionId := None \<rparr>,
          Some (ReferenceError ''setThinkingProcess is not defined'')))"

definition handleQueryStarted :: "ChatInterface \<Rightarrow> ChatInterface" where
  "handleQueryStarted c = c\<lparr>streamedThinking := [], streamedNodes := [], streamedAnswer := []\<rparr>"

definition handleQueryCompleted :: "ChatInterface \<Rightarrow> ChatInterface" where
  "handleQueryCompleted c = c\<lparr>isLoading := False\<rparr>"

text \<open>
  A render followed by its effects: \<^verbatim>\<open>streamedAnswer\<close> is a dependency of the effect, so
  the old handlers are removed and new ones registered, closing over the current value.
\<close>

definition render :: "ChatInterface \<Rightarrow> ChatInterface" where
  "render c = c\<lparr>closure_streamedAnswer := streamedAnswer c\<rparr>"

text \<open>The state of the first render, its effects run.\<close>

definition initial_ChatInterface :: "nat \<Rightarrow> ChatInterface" where
  "initial_ChatInterface now =
     \<lparr> messages =
         [\<lparr> msg_id = 1, role = Assistant,
            content = ''Hello! I'' @ [CHR 39] @ ''m your RAG assistant powered by PageIndex. I can help you understand and query your documents using two-stage reasoning-based retrieval. Select a document above to get started!'',
            timestamp = now, isStreaming = None, documentContext = None,
            cost = None, tokens = None, cached = None, citations = None \<rparr>],
       isLoading = False, currentQuestionId = None, streamedThinking = [],
       streamedNodes = [], streamedAnswer = [], isStreamingAnswer = False,
       closure_streamedAnswer = [], toasts = [], chat_console = [] \<rparr>"

text \<open>
  What reaches the component: the events the manager forwards to the registered
  handlers, and renders. An event comes with the clock reading at its delivery. The
  manager's \<^verbatim>\<open>emit\<close> catches what a handler throws, so the component goes on from the
  state the handler left.
\<close>

datatype chat_event =
    ThinkingStream string
  | Nodes "string list"
  | AnswerStream string
  | AnswerComplete AnswerCompleteData
  | QueryError QueryErrorEvent
  | QueryStarted
  | QueryCompleted
  | Render

fun deliver :: "nat \<times> chat_event \<Rightarrow> ChatInterface \<Rightarrow> ChatInterface" where
  "deliver (now, ThinkingStream chunk) c = handleThinkingStream chunk c"
| "deliver (now, Nodes node_list) c = handleNodes node_list c"
| "deliver (now, AnswerStream chunk) c = handleAnswerStream chunk c"
| "deliver (now, AnswerComplete data) c = handleAnswerComplete now data c"
| "deliver (now, QueryError data) c = fst (handleQueryError now data c)"
| "deliver (now, QueryStarted) c = handleQueryStarted c"
| "deliver (now, QueryCompleted) c = handleQueryCompleted c"
| "deliver (now, Render) c = render c"

definition deliver_all :: "(nat \<times> chat_event) list \<Rightarrow> ChatInterface \<Rightarrow> ChatInterface" where
  "deliver_all events c = fold deliver events c"

text \<open>The events of a question in flight: chunks, node lists and renders.\<close>

fun in_flight :: "chat_event \<Rightarrow> bool" where
  "in_flight (ThinkingStream _) = True"
| "in_flight (Nodes _) = True"
| "in_flight (AnswerStream _) = True"
| "in_flight Render = True"
| "in_flight _ = False"

fun thinking_chunks :: "(nat \<times> chat_event) list \<Rightarrow> string list" where
  "thinking_chunks [] = []"
| "thinking_chunks ((_, ThinkingStream chunk) # es) = chunk # thinking_chunks es"
| "thinking_chunks (_ # es) = thinking_chunks es"

fun answer_chunks :: "(nat \<times> chat_event) list \<Rightarrow> string list" where
  "answer_chunks [] = []"
| "answer_chunks ((_, AnswerStream chunk) # es) = chunk # answer_chunks es"
| "answer_chunks (_ # es) = answer_chunks es"

fun node_lists :: "(nat \<times> chat_event) list \<Rightarrow> string list list" where
  "node_lists [] = []"
| "node_lists ((_, Nodes node_list) # es) = node_list # node_lists es"
| "node_lists (_ # es) = node_lists es"

section \<open>Document jobs (frontend/hooks/use-document-updates.ts, documents-panel.tsx)\<close>

datatype doc_status = Uploaded | Processing | Indexed | DocError

datatype tree_status = TreeStarted | TreeProcessing | TreeCompleted | TreeFailed

text \<open>
  \<^verbatim>\<open>interface Document\<close> of the panel (its \<^verbatim>\<open>id\<close>, \<^verbatim>\<open>name\<close> and \<^verbatim>\<open>size\<close> are prefixed here), and
  the two event shapes of the hook. Optional fields are options; numbers that count are
  integers, a progress is a real.
\<close>

record Document =
  doc_id :: int
  doc_name :: string
  doc_size :: int
  uploadDate :: nat
  status :: doc_status
  pageCount :: "int option"
  treeGenerated :: "bool option"
  progress :: "real option"

record DocumentUpdateEvent =
  ev_doc_id :: int
  ev_status :: doc_status
  ev_message :: "string option"
  ev_num_pages :: "int option"
  ev_progress :: "real option"

record TreeGenerationEvent =
  tr_doc_id :: int
  tr_tree_id :: "int option"
  tr_status :: tree_status
  tr_message :: "string option"
  tr_progress :: "real option"
  tr_num_nodes :: "int option"
  tr_num_pages :: "int option"

text \<open>
  JavaScript's \<^verbatim>\<open>a || b\<close> on an optional number and an optional string: \<^verbatim>\<open>a\<close> when it is
  truthy (present, and not \<^verbatim>\<open>0\<close>, not the empty string), else \<^verbatim>\<open>b\<close>.
\<close>

definition truthy_num :: "'a::zero option \<Rightarrow> bool" where
  "truthy_num a = (case a of None \<Rightarrow> False | Some n \<Rightarrow> n \<noteq> 0)"

definition or_string :: "string option \<Rightarrow> string \<Rightarrow> string" where
  "or_string a b = (case a of None \<Rightarrow> b | Some s \<Rightarrow> if s = [] then b else s)"

text \<open>
  The text of a toast: a given string, or one of the panel's template strings with the
  values that fill it.
\<close>

datatype toast_text =
    Text string
  | GeneratingTree "int option"
  | TreeGenerated "(int \<times> int option) option"

datatype panel_toast =
    ToastError toast_text "int option"
  | ToastLoading toast_text "int option"
  | ToastSuccess toast_text "int option"

definition or_text :: "string option \<Rightarrow> toast_text \<Rightarrow> toast_text" where
  "or_text a b = (case a of None \<Rightarrow> b | Some s \<Rightarrow> if s = [] then b else Text s)"

record DocumentsPanel =
  documents :: "Document list"
  generatingTreeFor :: "int set"
  panel_toasts :: "panel_toast list"

definition onDocumentUpdate :: "DocumentUpdateEvent \<Rightarrow> DocumentsPanel \<Rightarrow> DocumentsPanel" where
  "onDocumentUpdate event p =
     (let p1 = p\<lparr>documents :=
                  map (\<lambda>doc. if doc_id doc = ev_doc_id event
                              then doc\<lparr> status := ev_status event,
                                        pageCount := (if truthy_num (ev_num_pages event)
                                                      then ev_num_pages event else pageCount doc),
                                        progress := ev_progress event \<rparr>
                              else doc)
                      (documents p)\<rparr>
      in if ev_status event = DocError
         then p1\<lparr>panel_toasts := panel_toasts p1 @
                   [ToastError (Text (or_string (ev_message event) ''Document processing failed'')) None]\<rparr>
         else p1)"

definition onTreeGeneration :: "TreeGenerationEvent \<Rightarrow> DocumentsPanel \<Rightarrow> DocumentsPanel" where
  "onTreeGeneration event p =
     (let p1 = p\<lparr>documents :=
                  map (\<lambda>doc. if doc_id doc = tr_doc_id event
                              then doc\<lparr> progress := tr_progress event,
                                        status := (if tr_status event = TreeCompleted
                                                   then Indexed else status doc),
                                        treeGenerated := Some (tr_status event = TreeCompleted) \<rparr>
                              else doc)
                      (documents p)\<rparr>
      in case tr_status event of
           TreeStarted \<Rightarrow>
             p1\<lparr>panel_toasts := panel_toasts p1 @
                  [ToastLoading (or_text (tr_message event) (Text ''Starting tree generation...''))
                     (Some (tr_doc_id event))]\<rparr>
         | TreeProcessing \<Rightarrow>
             p1\<lparr>panel_toasts := panel_toasts p1 @
                  [ToastLoading
                     (or_text (tr_message event)
                        (GeneratingTree (if truthy_num (tr_progress event)
                                         then map_option round (tr_progress event) else None)))
                     (Some (tr_doc_id event))]\<rparr>
         | TreeCompleted \<Rightarrow>
             p1\<lparr>generatingTreeFor := generatingTreeFor p1 - {tr_doc_id event},
                panel_toasts := panel_toasts p1 @
                  [ToastSuccess
                     (or_text (tr_message event)
                        (TreeGenerated (if truthy_num (tr_num_nodes event)
                                        then map_option (\<lambda>n. (n, tr_num_pages event)) (tr_num_nodes event)
                                        else None)))
                     (Some (tr_doc_id event))]\<rparr>
         | TreeFailed \<Rightarrow>
             p1\<lparr>generatingTreeFor := generatingTreeFor p1 - {tr_doc_id event},
                panel_toasts := panel_toasts p1 @
                  [ToastError (or_text (tr_message event) (Text ''Tree generation failed''))
                     (Some (tr_doc_id event))]\<rparr>)"

text \<open>
  The hook's socket handlers: each calls the panel's callback, the specific events
  with the status overwritten (\<^verbatim>\<open>{ ...event, status: 'processing' }\<close>).
\<close>

datatype doc_socket_event =
    DocumentUpdate DocumentUpdateEvent
  | DocumentProcessing DocumentUpdateEvent
  | DocumentIndexed DocumentUpdateEvent
  | DocumentError DocumentUpdateEvent
  | TreeStartedEvent TreeGenerationEvent
  | TreeProgressEvent TreeGenerationEvent
  | TreeCompletedEvent TreeGenerationEvent
  | TreeErrorEvent TreeGenerationEvent

fun useDocumentUpdates :: "doc_socket_event \<Rightarrow> DocumentsPanel \<Rightarrow> DocumentsPanel" where
  "useDocumentUpdates (DocumentUpdate event) p = onDocumentUpdate event p"
| "useDocumentUpdates (DocumentProcessing event) p = onDocumentUpdate (event\<lparr>ev_status := Processing\<rparr>) p"
| "useDocumentUpdates (DocumentIndexed event) p = onDocumentUpdate (event\<lparr>ev_status := Indexed\<rparr>) p"
| "useDocumentUpdates (DocumentError event) p = onDocumentUpdate (event\<lparr>ev_status := DocError\<rparr>) p"
| "useDocumentUpdates (TreeStartedEvent event) p = onTreeGeneration (event\<lparr>tr_status := TreeStarted\<rparr>) p"
| "useDocumentUpdates (TreeProgressEvent event) p = onTreeGeneration (event\<lparr>tr_status := TreeProcessing\<rparr>) p"
| "useDocumentUpdates (TreeCompletedEvent event) p = onTreeGeneration (event\<lparr>tr_status := TreeCompleted\<rparr>) p"
| "useDocumentUpdates (TreeErrorEvent event) p = onTreeGeneration (event\<lparr>tr_status := TreeFailed\<rparr>) p"

text \<open>
  The exceptions the handlers of one \<^verbatim>\<open>emit\<close> throw, in order: each handler runs on
  the world its predecessors left.
\<close>

fun errors_thrown :: "('p, 'w) handler list \<Rightarrow> 'p \<Rightarrow> 'w \<Rightarrow> jsError list" where
  "errors_thrown [] data w = []"
| "errors_thrown (h # hs) data w =
     (case h data w of
        (w', None) \<Rightarrow> errors_thrown hs data w'
      | (w', Some err) \<Rightarrow> err # errors_thrown hs data w')"

section \<open>Dispatcher: a throwing handler does not stop delivery\<close>

lemma forEach_try_world:
  "snd (forEach_try event hs data (con, w)) = fold (\<lambda>h w. fst (h data w)) hs w"
  by (induction hs arbitrary: con w) (auto split: prod.splits option.splits)

lemma emit_world:
  "snd (emit event data m w) = fold (\<lambda>h w. fst (h data w)) (map snd (listeners m event)) w"
proof -
  obtain con w' where r: "forEach_try event (map snd (listeners m event)) data (console m, w) = (con, w')"
    by (cases "forEach_try event (map snd (listeners m event)) data (console m, w)")
  have "w' = fold (\<lambda>h w. fst (h data w)) (map snd (listeners m event)) w"
    using forEach_try_world [of event "map snd (listeners m event)" data "console m" w] r by simp
  then show ?thesis by (simp add: emit_def r)
qed

lemma forEach_try_console:
  "fst (forEach_try event hs data (con, w)) =
     con @ map (\<lambda>err. [Str (''Error in event handler for '' @ event @ '':''), Thrown err])
             (errors_thrown hs data w)"
  by (induction hs arbitrary: con w) (auto split: prod.splits option.splits)

lemma emit_fst:
  "fst (emit event data m w) =
     m\<lparr>console := fst (forEach_try event (map snd (listeners m event)) data (console m, w))\<rparr>"
  by (simp add: emit_def split: prod.splits)

text \<open>
  C6. Whatever the handlers registered for an event do, \<^verbatim>\<open>emit\<close> runs every one of them
  on the payload, in registration order: the world after the emit is the world after
  all the handlers' calls, a handler that throws included, and each handler after it
  too. Every exception is caught and logged as one \<^verbatim>\<open>console.error\<close> line; none leaves
  \<^verbatim>\<open>emit\<close>.
\<close>

theorem emit_survives_throwing_handlers:
  "snd (emit event data m w) = fold (\<lambda>h w. fst (h data w)) (map snd (listeners m event)) w
   \<and> console (fst (emit event data m w)) =
       console m @ map (\<lambda>err. [Str (''Error in event handler for '' @ event @ '':''), Thrown err])
                     (errors_thrown (map snd (listeners m event)) data w)"
  by (simp add: emit_world emit_fst forEach_try_console)

section \<open>sendQuery without a connection\<close>

text \<open>
  C9. When the transport is not connected, \<^verbatim>\<open>sendQuery\<close> sends no frame (the socket, with
  the frames sent on it, is as before), and every listener of \<^verbatim>\<open>query:error\<close> is called
  with the message \<^verbatim>\<open>Not connected to server. Please try again.\<close> and the request's
  conversation id. The call returns: the listeners' exceptions are caught by \<^verbatim>\<open>emit\<close>.
\<close>

theorem sendQuery_not_connected:
  assumes "\<not> isConnected m"
  shows "socket (fst (sendQuery queryRequest m w)) = socket m
       \<and> listeners (fst (sendQuery queryRequest m w)) = listeners m
       \<and> snd (sendQuery queryRequest m w) =
           fold (\<lambda>h w. fst (h (QueryErrorData
                     \<lparr> qe_message = ''Not connected to server. Please try again.'',
                       qe_conversation_id = conversation_id queryRequest \<rparr>) w))
                (map snd (listeners m ''query:error'')) w"
  using assms by (simp add: sendQuery_def emit_world emit_fst)

theorem sendQuery_not_connected_witness:
  "\<not> isConnected (on ''query:error'' (0, recorder) new_WebSocketManager)
   \<and> socket (fst (sendQuery \<lparr>question = ''q'', document_id = 1, conversation_id = 7,
                   use_cache = Some True, include_citations = Some True\<rparr>
               (on ''query:error'' (0, recorder) new_WebSocketManager) [])) = None
   \<and> snd (sendQuery \<lparr>question = ''q'', document_id = 1, conversation_id = 7,
                   use_cache = Some True, include_citations = Some True\<rparr>
               (on ''query:error'' (0, recorder) new_WebSocketManager) [])
       = [QueryErrorData \<lparr> qe_message = ''Not connected to server. Please try again.'',
                       qe_conversation_id = 7 \<rparr>]"
proof -
  have nc: "\<not> isConnected (on ''query:error'' (0, recorder) (new_WebSocketManager :: payload list WebSocketManager))"
    by (simp add: isConnected_def on_def new_WebSocketManager_def)
  show ?thesis
    using nc sendQuery_not_connected [OF nc, of "\<lparr>question = ''q'', document_id = 1, conversation_id = 7,
                   use_cache = Some True, include_citations = Some True\<rparr>" "[]"]
    by (simp add: on_def new_WebSocketManager_def recorder_def)
qed

section \<open>The streaming accumulators\<close>

lemma deliver_in_flight_thinking:
  "in_flight e \<Longrightarrow>
     streamedThinking (deliver (now, e) c) =
       streamedThinking c @ concat (thinking_chunks [(now, e)])"
  by (cases e) (simp_all add: handleThinkingStream_def handleNodes_def handleAnswerStream_def render_def)

lemma thinking_chunks_Cons:
  "thinking_chunks (ne # es) = thinking_chunks [ne] @ thinking_chunks es"
  by (cases ne; cases "snd ne") auto

lemma deliver_all_thinking:
  "list_all (\<lambda>ne. in_flight (snd ne)) events \<Longrightarrow>
     streamedThinking (deliver_all events c) = streamedThinking c @ concat (thinking_chunks events)"
proof (induction events arbitrary: c)
  case Nil
  then show ?case by (simp add: deliver_all_def)
next
  case (Cons ne events)
  obtain now e where ne: "ne = (now, e)" by (cases ne)
  from Cons.prems ne have fl: "in_flight e" and rest: "list_all (\<lambda>ne. in_flight (snd ne)) events"
    by simp_all
  have "streamedThinking (deliver_all (ne # events) c) =
          streamedThinking (deliver_all events (deliver (now, e) c))"
    by (simp add: deliver_all_def ne)
  also have "\<dots> = streamedThinking (deliver (now, e) c) @ concat (thinking_chunks events)"
    using Cons.IH [OF rest] .
  also have "\<dots> = (streamedThinking c @ concat (thinking_chunks [(now, e)])) @ concat (thinking_chunks events)"
    by (simp only: deliver_in_flight_thinking [OF fl])
  also have "\<dots> = streamedThinking c @ concat (thinking_chunks (ne # events))"
    using thinking_chunks_Cons [of ne events] by (simp add: ne)
  finally show ?case .
qed

text \<open>
  C7. From \<^verbatim>\<open>query:started\<close> on, while only the events of a question in flight arrive
  (thinking and answer chunks, node lists, renders in between), the accumulated
  \<^verbatim>\<open>streamedThinking\<close> is the concatenation of the thinking chunks in arrival order.
\<close>

theorem thinking_text_is_concatenation:
  assumes "list_all (\<lambda>ne. in_flight (snd ne)) events"
  shows "streamedThinking (deliver_all events (handleQueryStarted c)) = concat (thinking_chunks events)"
  using deliver_all_thinking [OF assms, of "handleQueryStarted c"]
  by (simp add: handleQueryStarted_def)

theorem thinking_text_is_concatenation_witness:
  "list_all (\<lambda>ne. in_flight (snd ne))
     [(10::nat, ThinkingStream ''Look''), (11, Render), (12, ThinkingStream ''ing''),
      (13, Nodes [''0001'', ''0002'']), (14, AnswerStream ''The '')]
   \<and> streamedThinking
       (deliver_all
          [(10::nat, ThinkingStream ''Look''), (11, Render), (12, ThinkingStream ''ing''),
           (13, Nodes [''0001'', ''0002'']), (14, AnswerStream ''The '')]
          (handleQueryStarted (initial_ChatInterface 0))) = ''Looking''"
proof -
  have fl: "list_all (\<lambda>ne. in_flight (snd ne))
     [(10::nat, ThinkingStream ''Look''), (11, Render), (12, ThinkingStream ''ing''),
      (13, Nodes [''0001'', ''0002'']), (14, AnswerStream ''The '')]"
    by simp
  show ?thesis
    using fl thinking_text_is_concatenation [OF fl, of "initial_ChatInterface 0"] by simp
qed

lemma deliver_all_nodes:
  "list_all (\<lambda>ne. in_flight (snd ne)) events \<Longrightarrow>
     streamedNodes (deliver_all events c) =
       (if node_lists events = [] then streamedNodes c else last (node_lists events))"
proof (induction events arbitrary: c)
  case Nil
  then show ?case by (simp add: deliver_all_def)
next
  case (Cons ne events)
  obtain now e where ne: "ne = (now, e)" by (cases ne)
  from Cons.prems ne have fl: "in_flight e" and rest: "list_all (\<lambda>ne. in_flight (snd ne)) events"
    by simp_all
  have step: "streamedNodes (deliver_all (ne # events) c) =
          (if node_lists events = [] then streamedNodes (deliver (now, e) c)
           else last (node_lists events))"
    using Cons.IH [OF rest, of "deliver (now, e) c"] by (simp add: deliver_all_def ne)
  show ?case
    unfolding step using fl
    by (cases e)
       (simp_all add: ne handleThinkingStream_def handleNodes_def handleAnswerStream_def render_def)
qed

text \<open>
  C8. \<^verbatim>\<open>query:nodes\<close> is last-write-wins: while only the events of a question in flight
  arrive, and at least one of them is a node list, \<^verbatim>\<open>streamedNodes\<close> is the node list of
  the last \<^verbatim>\<open>query:nodes\<close> event; earlier lists leave no trace.
\<close>

theorem nodes_last_write_wins:
  assumes "list_all (\<lambda>ne. in_flight (snd ne)) events" and "node_lists events \<noteq> []"
  shows "streamedNodes (deliver_all events c) = last (node_lists events)"
  using deliver_all_nodes [OF assms(1), of c] assms(2) by simp

theorem nodes_last_write_wins_witness:
  "list_all (\<lambda>ne. in_flight (snd ne)) [(1::nat, Nodes [''a'', ''b'']), (2, ThinkingStream ''x''), (3, Nodes [''c''])]
   \<and> node_lists [(1::nat, Nodes [''a'', ''b'']), (2, ThinkingStream ''x''), (3, Nodes [''c''])] \<noteq> []
   \<and> streamedNodes (deliver_all [(1::nat, Nodes [''a'', ''b'']), (2, ThinkingStream ''x''), (3, Nodes [''c''])]
        (initial_ChatInterface 0)) = [''c'']"
proof -
  have fl: "list_all (\<lambda>ne. in_flight (snd ne)) [(1::nat, Nodes [''a'', ''b'']), (2, ThinkingStream ''x''), (3, Nodes [''c''])]"
    by simp
  have ne: "node_lists [(1::nat, Nodes [''a'', ''b'']), (2, ThinkingStream ''x''), (3, Nodes [''c''])] \<noteq> []"
    by simp
  show ?thesis
    using fl ne nodes_last_write_wins [OF fl ne, of "initial_ChatInterface 0"] by simp
qed

section \<open>Completion, late events and the error handler\<close>

text \<open>
  C1. The message \<^verbatim>\<open>handleAnswerComplete\<close> appends takes its content from the closure's
  \<^verbatim>\<open>streamedAnswer\<close>, the value of the last render. With the chunks \<^verbatim>\<open>The \<close> and
  \<^verbatim>\<open>answer.\<close> and no render between the last chunk and \<^verbatim>\<open>query:answer_complete\<close>, the
  content is \<^verbatim>\<open>The \<close>, while the chunks concatenate to \<^verbatim>\<open>The answer.\<close>; with a render in
  between, the content is the whole answer.
\<close>

theorem answer_complete_reads_closure:
  "content (last (messages (handleAnswerComplete now data c))) = closure_streamedAnswer c
   \<and> content (last (messages (deliver_all
         [(1, QueryStarted), (2, Render), (3, AnswerStream ''The ''), (4, Render),
          (5, AnswerStream ''answer.''), (6, AnswerComplete data)]
         (initial_ChatInterface 0)))) = ''The ''
   \<and> concat (answer_chunks
         [(1, QueryStarted), (2, Render), (3, AnswerStream ''The ''), (4, Render),
          (5, AnswerStream ''answer.''), (6, AnswerComplete data)]) = ''The answer.''
   \<and> content (last (messages (deliver_all
         [(1, QueryStarted), (2, Render), (3, AnswerStream ''The ''), (4, Render),
          (5, AnswerStream ''answer.''), (6, Render), (7, AnswerComplete data)]
         (initial_ChatInterface 0)))) = ''The answer.''"
  by (simp add: deliver_all_def handleAnswerComplete_def handleAnswerStream_def
        handleQueryStarted_def render_def initial_ChatInterface_def Let_def)

text \<open>
  C2, as the claim states it, fails: after a question has completed, a late
  \<^verbatim>\<open>query:thinking_stream\<close> chunk changes the state. The accumulator that completion
  cleared holds the late chunk afterwards.
\<close>

theorem late_chunk_after_completion_counterexample:
  "deliver (5, ThinkingStream ''late'')
     (deliver_all
        [(1, QueryStarted), (2, AnswerStream ''a''), (3, Render),
         (4, AnswerComplete \<lparr>ac_cost = 0, ac_tokens_used = 120, ac_cached = False, ac_citations = []\<rparr>)]
        (initial_ChatInterface 0))
   \<noteq> deliver_all
        [(1, QueryStarted), (2, AnswerStream ''a''), (3, Render),
         (4, AnswerComplete \<lparr>ac_cost = 0, ac_tokens_used = 120, ac_cached = False, ac_citations = []\<rparr>)]
        (initial_ChatInterface 0)
   \<and> streamedThinking
       (deliver (5, ThinkingStream ''late'')
         (deliver_all
            [(1, QueryStarted), (2, AnswerStream ''a''), (3, Render),
             (4, AnswerComplete \<lparr>ac_cost = 0, ac_tokens_used = 120, ac_cached = False, ac_citations = []\<rparr>)]
            (initial_ChatInterface 0))) = ''late''
   \<and> streamedThinking
         (deliver_all
            [(1, QueryStarted), (2, AnswerStream ''a''), (3, Render),
             (4, AnswerComplete \<lparr>ac_cost = 0, ac_tokens_used = 120, ac_cached = False, ac_citations = []\<rparr>)]
            (initial_ChatInterface 0)) = []"
proof -
  let ?t = "deliver_all
        [(1, QueryStarted), (2, AnswerStream ''a''), (3, Render),
         (4, AnswerComplete \<lparr>ac_cost = 0, ac_tokens_used = 120, ac_cached = False, ac_citations = []\<rparr>)]
        (initial_ChatInterface 0)"
  have a: "streamedThinking ?t = []"
    by (simp add: deliver_all_def handleAnswerComplete_def handleAnswerStream_def
        handleQueryStarted_def render_def initial_ChatInterface_def Let_def)
  have b: "streamedThinking (deliver (5, ThinkingStream ''late'') ?t) = ''late''"
    using a by (simp add: handleThinkingStream_def)
  have "deliver (5, ThinkingStream ''late'') ?t \<noteq> ?t"
  proof
    assume "deliver (5, ThinkingStream ''late'') ?t = ?t"
    then have "streamedThinking (deliver (5, ThinkingStream ''late'') ?t) = streamedThinking ?t"
      by simp
    with a b show False by simp
  qed
  with a b show ?thesis by blast
qed

text \<open>
  C2, amended. The events carry no question id and no handler checks a phase: an event
  after the terminal one is processed like any other. In every state, a thinking or
  answer chunk is appended to its accumulator and a node list replaces the stored one,
  and these three events leave the messages, the loading flag, the current question id
  and the toasts as they are. Right after a completion the accumulators are empty, so
  a late chunk is then the whole accumulator. Another \<^verbatim>\<open>query:answer_complete\<close> or
  \<^verbatim>\<open>query:error\<close> appends one more message after the ones already there.
\<close>

theorem late_events_are_processed:
  "messages (handleThinkingStream chunk c) = messages c
   \<and> isLoading (handleThinkingStream chunk c) = isLoading c
   \<and> currentQuestionId (handleThinkingStream chunk c) = currentQuestionId c
   \<and> toasts (handleThinkingStream chunk c) = toasts c
   \<and> streamedThinking (handleThinkingStream chunk c) = streamedThinking c @ chunk
   \<and> messages (handleNodes node_list c) = messages c
   \<and> isLoading (handleNodes node_list c) = isLoading c
   \<and> currentQuestionId (handleNodes node_list c) = currentQuestionId c
   \<and> toasts (handleNodes node_list c) = toasts c
   \<and> streamedNodes (handleNodes node_list c) = node_list
   \<and> messages (handleAnswerStream chunk c) = messages c
   \<and> isLoading (handleAnswerStream chunk c) = isLoading c
   \<and> currentQuestionId (handleAnswerStream chunk c) = currentQuestionId c
   \<and> toasts (handleAnswerStream chunk c) = toasts c
   \<and> streamedAnswer (handleAnswerStream chunk c) = streamedAnswer c @ chunk
   \<and> isStreamingAnswer (handleAnswerStream chunk c)
   \<and> streamedThinking (handleThinkingStream chunk (handleAnswerComplete now data c)) = chunk
   \<and> streamedAnswer (handleAnswerStream chunk (handleAnswerComplete now data c)) = chunk
   \<and> butlast (messages (handleAnswerComplete now data c)) = messages c
   \<and> length (messages (handleAnswerComplete now data c)) = length (messages c) + 1
   \<and> butlast (messages (fst (handleQueryError now err c))) = messages c
   \<and> length (messages (fst (handleQueryError now err c))) = length (messages c) + 1"
  by (simp add: handleThinkingStream_def handleNodes_def handleAnswerStream_def
        handleAnswerComplete_def handleQueryError_def Let_def)

text \<open>
  C10. Every call of \<^verbatim>\<open>handleQueryError\<close> throws the ReferenceError of the unbound
  \<^verbatim>\<open>setThinkingProcess\<close>. The toast after that call is never made. What stands before it
  has taken effect: the system message \<^verbatim>\<open>Error: <message>\<close> is appended, the loading
  flag is false and the current question id is null. Called from \<^verbatim>\<open>emit\<close>, the exception is
  caught and logged.
\<close>

theorem handleQueryError_always_throws:
  "snd (handleQueryError now data c) = Some (ReferenceError ''setThinkingProcess is not defined'')
   \<and> toasts (fst (handleQueryError now data c)) = toasts c
   \<and> messages (fst (handleQueryError now data c)) =
       messages c @
         [\<lparr> msg_id = now + 1, role = System, content = ''Error: '' @ qe_message data,
            timestamp = now, isStreaming = None, documentContext = None,
            cost = None, tokens = None, cached = None, citations = None \<rparr>]
   \<and> isLoading (fst (handleQueryError now data c)) = False
   \<and> currentQuestionId (fst (handleQueryError now data c)) = None
   \<and> forEach_try ''query:error'' [handleQueryError now] data (con, c) =
       (con @ [[Str ''Error in event handler for query:error:'',
                Thrown (ReferenceError ''setThinkingProcess is not defined'')]],
        fst (handleQueryError now data c))"
  by (simp add: handleQueryError_def Let_def)

section \<open>The reconnect cap\<close>








section \<open>Document jobs: what an event keeps and what it replaces\<close>

lemma documents_onDocumentUpdate:
  "documents (onDocumentUpdate event p) =
     map (\<lambda>doc. if doc_id doc = ev_doc_id event
                 then doc\<lparr> status := ev_status event,
                           pageCount := (if truthy_num (ev_num_pages event)
                                         then ev_num_pages event else pageCount doc),
                           progress := ev_progress event \<rparr>
                 else doc)
         (documents p)"
  by (simp add: onDocumentUpdate_def Let_def)

lemma documents_onTreeGeneration:
  "documents (onTreeGeneration event p) =
     map (\<lambda>doc. if doc_id doc = tr_doc_id event
                 then doc\<lparr> progress := tr_progress event,
                           status := (if tr_status event = TreeCompleted
                                      then Indexed else status doc),
                           treeGenerated := Some (tr_status event = TreeCompleted) \<rparr>
                 else doc)
         (documents p)"
  by (simp add: onTreeGeneration_def Let_def split: tree_status.splits)

text \<open>
  C4, as the claim states it, fails for the progress: a \<^verbatim>\<open>document:update\<close> event
  without a \<^verbatim>\<open>progress\<close> field clears the stored progress of its document (40 before,
  undefined after).
\<close>

theorem progress_cleared_counterexample:
  "map progress (documents
     \<lparr> documents = [\<lparr> doc_id = 1, doc_name = ''a.pdf'', doc_size = 10, uploadDate = 0,
                      status = Processing, pageCount = Some 12, treeGenerated = None,
                      progress = Some 40 \<rparr>],
       generatingTreeFor = {}, panel_toasts = [] \<rparr>) = [Some 40]
   \<and> map progress (documents (useDocumentUpdates
       (DocumentUpdate \<lparr> ev_doc_id = 1, ev_status = Processing, ev_message = Some ''parsing'',
                          ev_num_pages = None, ev_progress = None \<rparr>)
       \<lparr> documents = [\<lparr> doc_id = 1, doc_name = ''a.pdf'', doc_size = 10, uploadDate = 0,
                        status = Processing, pageCount = Some 12, treeGenerated = None,
                        progress = Some 40 \<rparr>],
         generatingTreeFor = {}, panel_toasts = [] \<rparr>)) = [None]"
  by (simp add: onDocumentUpdate_def Let_def truthy_num_def)

text \<open>
  C4, amended. A job event changes only the documents whose id is the event's: every
  other document is untouched, in every field. In a document of that id, a document
  event keeps the id, name, size, upload date and tree flag, sets the status to the
  event's, and keeps the stored page count whenever the event has no \<^verbatim>\<open>num_pages\<close> (or a
  zero one). The progress is not merged: it becomes the event's \<^verbatim>\<open>progress\<close>, present or
  not. A tree event likewise keeps id, name, size, upload date and page count,
  replaces the progress by its own, sets the tree flag to whether the tree status is
  \<^verbatim>\<open>completed\<close>, and sets the status to \<^verbatim>\<open>indexed\<close> when it is, leaving it otherwise. Neither
  handler adds, removes or reorders documents, and a document event leaves the set of
  trees being generated as it is.
\<close>

theorem event_fields_merge_except_progress:
  "map doc_id (documents (onDocumentUpdate event p)) = map doc_id (documents p)
   \<and> map doc_name (documents (onDocumentUpdate event p)) = map doc_name (documents p)
   \<and> map doc_size (documents (onDocumentUpdate event p)) = map doc_size (documents p)
   \<and> map uploadDate (documents (onDocumentUpdate event p)) = map uploadDate (documents p)
   \<and> map treeGenerated (documents (onDocumentUpdate event p)) = map treeGenerated (documents p)
   \<and> map pageCount (documents (onDocumentUpdate event p)) =
       map (\<lambda>doc. if doc_id doc = ev_doc_id event \<and> truthy_num (ev_num_pages event)
                   then ev_num_pages event else pageCount doc) (documents p)
   \<and> (ev_num_pages event = None \<longrightarrow>
        map pageCount (documents (onDocumentUpdate event p)) = map pageCount (documents p))
   \<and> map progress (documents (onDocumentUpdate event p)) =
       map (\<lambda>doc. if doc_id doc = ev_doc_id event then ev_progress event else progress doc)
           (documents p)
   \<and> map doc_id (documents (onTreeGeneration tree_event p)) = map doc_id (documents p)
   \<and> map doc_name (documents (onTreeGeneration tree_event p)) = map doc_name (documents p)
   \<and> map doc_size (documents (onTreeGeneration tree_event p)) = map doc_size (documents p)
   \<and> map uploadDate (documents (onTreeGeneration tree_event p)) = map uploadDate (documents p)
   \<and> map pageCount (documents (onTreeGeneration tree_event p)) = map pageCount (documents p)
   \<and> map progress (documents (onTreeGeneration tree_event p)) =
       map (\<lambda>doc. if doc_id doc = tr_doc_id tree_event then tr_progress tree_event
                   else progress doc) (documents p)
   \<and> map (\<lambda>doc. if doc_id doc = ev_doc_id event then None else Some doc)
         (documents (onDocumentUpdate event p)) =
       map (\<lambda>doc. if doc_id doc = ev_doc_id event then None else Some doc) (documents p)
   \<and> map (\<lambda>doc. if doc_id doc = tr_doc_id tree_event then None else Some doc)
         (documents (onTreeGeneration tree_event p)) =
       map (\<lambda>doc. if doc_id doc = tr_doc_id tree_event then None else Some doc) (documents p)
   \<and> map status (documents (onDocumentUpdate event p)) =
       map (\<lambda>doc. if doc_id doc = ev_doc_id event then ev_status event else status doc)
           (documents p)
   \<and> map status (documents (onTreeGeneration tree_event p)) =
       map (\<lambda>doc. if doc_id doc = tr_doc_id tree_event \<and> tr_status tree_event = TreeCompleted
                   then Indexed else status doc) (documents p)
   \<and> map treeGenerated (documents (onTreeGeneration tree_event p)) =
       map (\<lambda>doc. if doc_id doc = tr_doc_id tree_event
                   then Some (tr_status tree_event = TreeCompleted) else treeGenerated doc)
           (documents p)
   \<and> length (documents (onDocumentUpdate event p)) = length (documents p)
   \<and> length (documents (onTreeGeneration tree_event p)) = length (documents p)
   \<and> generatingTreeFor (onDocumentUpdate event p) = generatingTreeFor p"
proof -
  have kept: "generatingTreeFor (onDocumentUpdate event p) = generatingTreeFor p"
    by (simp add: onDocumentUpdate_def Let_def)
  show ?thesis
    unfolding kept
    by (simp add: documents_onDocumentUpdate documents_onTreeGeneration truthy_num_def comp_def
          cong: map_cong)
qed

theorem event_fields_merge_except_progress_witness:
  "ev_num_pages \<lparr> ev_doc_id = 1, ev_status = Processing, ev_message = None,
                   ev_num_pages = None, ev_progress = Some 55 \<rparr> = None
   \<and> map pageCount (documents (onDocumentUpdate
        \<lparr> ev_doc_id = 1, ev_status = Processing, ev_message = None,
          ev_num_pages = None, ev_progress = Some 55 \<rparr>
        \<lparr> documents = [\<lparr> doc_id = 1, doc_name = ''a.pdf'', doc_size = 10, uploadDate = 0,
                         status = Processing, pageCount = Some 12, treeGenerated = None,
                         progress = Some 40 \<rparr>],
          generatingTreeFor = {}, panel_toasts = [] \<rparr>)) = [Some 12]
   \<and> map progress (documents (onDocumentUpdate
        \<lparr> ev_doc_id = 1, ev_status = Processing, ev_message = None,
          ev_num_pages = None, ev_progress = Some 55 \<rparr>
        \<lparr> documents = [\<lparr> doc_id = 1, doc_name = ''a.pdf'', doc_size = 10, uploadDate = 0,
                         status = Processing, pageCount = Some 12, treeGenerated = None,
                         progress = Some 40 \<rparr>],
          generatingTreeFor = {}, panel_toasts = [] \<rparr>)) = [Some 55]"
  using event_fields_merge_except_progress
    [of "\<lparr> ev_doc_id = 1, ev_status = Processing, ev_message = None,
          ev_num_pages = None, ev_progress = Some 55 \<rparr>"
        "\<lparr> documents = [\<lparr> doc_id = 1, doc_name = ''a.pdf'', doc_size = 10, uploadDate = 0,
                         status = Processing, pageCount = Some 12, treeGenerated = None,
                         progress = Some 40 \<rparr>],
          generatingTreeFor = {}, panel_toasts = [] \<rparr>"
        "\<lparr> tr_doc_id = 1, tr_tree_id = None, tr_status = TreeProcessing, tr_message = None,
          tr_progress = None, tr_num_nodes = None, tr_num_pages = None \<rparr>"]
  by (simp add: truthy_num_def)

text \<open>
  C5, as the claim states it, fails: a document indexed by \<^verbatim>\<open>document:indexed\<close> is set
  back to \<^verbatim>\<open>processing\<close> by a later \<^verbatim>\<open>document:processing\<close> event for the same id.
\<close>

theorem status_regresses_counterexample:
  "map status (documents (useDocumentUpdates
       (DocumentProcessing \<lparr> ev_doc_id = 1, ev_status = Processing, ev_message = None,
                              ev_num_pages = None, ev_progress = Some 10 \<rparr>)
       (useDocumentUpdates
          (DocumentIndexed \<lparr> ev_doc_id = 1, ev_status = Indexed, ev_message = None,
                              ev_num_pages = Some 12, ev_progress = None \<rparr>)
          \<lparr> documents = [\<lparr> doc_id = 1, doc_name = ''a.pdf'', doc_size = 10, uploadDate = 0,
                           status = Processing, pageCount = None, treeGenerated = None,
                           progress = None \<rparr>],
            generatingTreeFor = {}, panel_toasts = [] \<rparr>))) = [Processing]
   \<and> map status (documents
       (useDocumentUpdates
          (DocumentIndexed \<lparr> ev_doc_id = 1, ev_status = Indexed, ev_message = None,
                              ev_num_pages = Some 12, ev_progress = None \<rparr>)
          \<lparr> documents = [\<lparr> doc_id = 1, doc_name = ''a.pdf'', doc_size = 10, uploadDate = 0,
                           status = Processing, pageCount = None, treeGenerated = None,
                           progress = None \<rparr>],
            generatingTreeFor = {}, panel_toasts = [] \<rparr>)) = [Indexed]"
  by (simp add: onDocumentUpdate_def Let_def truthy_num_def)

text \<open>
  C5, amended. No job event is ignored on account of the stored status. Every
  document event overwrites the stored status of its document, whatever it was:
  \<^verbatim>\<open>document:update\<close> with the event's status, \<^verbatim>\<open>document:processing\<close> with
  \<^verbatim>\<open>processing\<close>, \<^verbatim>\<open>document:indexed\<close> with \<^verbatim>\<open>indexed\<close>, \<^verbatim>\<open>document:error\<close> with \<^verbatim>\<open>error\<close>. Tree
  events never set a status back: \<^verbatim>\<open>tree:started\<close>, \<^verbatim>\<open>tree:progress\<close> and \<^verbatim>\<open>tree:error\<close> leave
  every stored status as it is, and \<^verbatim>\<open>tree:completed\<close> sets its document's status to
  \<^verbatim>\<open>indexed\<close>. The status of a document with another id never changes. The same holds
  of the panel's two callbacks, which the socket handlers call.
\<close>

theorem status_follows_document_events:
  "map status (documents (onDocumentUpdate event p)) =
     map (\<lambda>doc. if doc_id doc = ev_doc_id event then ev_status event else status doc)
         (documents p)
   \<and> map status (documents (onTreeGeneration tree_event p)) =
       map (\<lambda>doc. if doc_id doc = tr_doc_id tree_event \<and> tr_status tree_event = TreeCompleted
                   then Indexed else status doc) (documents p)
   \<and> map status (documents (useDocumentUpdates (TreeStartedEvent tree_event) p)) =
       map status (documents p)
   \<and> map status (documents (useDocumentUpdates (TreeProgressEvent tree_event) p)) =
       map status (documents p)
   \<and> map status (documents (useDocumentUpdates (TreeErrorEvent tree_event) p)) =
       map status (documents p)
   \<and> map status (documents (useDocumentUpdates (TreeCompletedEvent tree_event) p)) =
       map (\<lambda>doc. if doc_id doc = tr_doc_id tree_event then Indexed else status doc)
           (documents p)
   \<and> map status (documents (useDocumentUpdates (DocumentUpdate event) p)) =
       map (\<lambda>doc. if doc_id doc = ev_doc_id event then ev_status event else status doc)
           (documents p)
   \<and> map status (documents (useDocumentUpdates (DocumentProcessing event) p)) =
       map (\<lambda>doc. if doc_id doc = ev_doc_id event then Processing else status doc)
           (documents p)
   \<and> map status (documents (useDocumentUpdates (DocumentIndexed event) p)) =
       map (\<lambda>doc. if doc_id doc = ev_doc_id event then Indexed else status doc)
           (documents p)
   \<and> map status (documents (useDocumentUpdates (DocumentError event) p)) =
       map (\<lambda>doc. if doc_id doc = ev_doc_id event then DocError else status doc)
           (documents p)"
  by (simp add: documents_onDocumentUpdate documents_onTreeGeneration comp_def cong: map_cong)

end
